theory Spec2Isabelle
  imports Main
begin

section \<open>Python values, exceptions and the external boundary\<close>

text \<open>
  The values that flow through \<^verbatim>\<open>mongollect/core.py\<close>: documents, filters, limits and
  names are plain Python data; database handles, collections, cursors and driver result
  objects are opaque objects of the external driver, told apart by a label.
  Dictionary keys are strings, as in documents and filters.
\<close>

datatype pyval =
    PNone
  | PBool bool
  | PInt int
  | PStr string
  | PList "pyval list"
  | PDict "(string \<times> pyval) list"
  | PObj string

text \<open>
  Exceptions are values. \<open>DriverError\<close> stands for every exception class other than the
  four builtin ones the code names (for example the driver's own error classes).
  Messages raised by the repository's code are verbatim; messages of errors raised by
  the interpreter or the driver are indicative, and no statement below rests on one
  except on the form of "object has no attribute".
\<close>

datatype exn =
    AttributeError string
  | KeyError string
  | TypeError string
  | ValueError string
  | DriverError string

text \<open>
  A call on an opaque object: receiver, method name, positional and keyword arguments.
  The log of such calls is the observable traffic on the collection boundary.
\<close>

datatype event = Call pyval string "pyval list" "(string \<times> pyval) list"

type_synonym 'a outcome = "(exn + 'a) \<times> event list"

record pyinstance =
  class_name :: string
  attrs :: "string \<rightharpoonup> pyval"

type_synonym pyargs = "pyval list \<times> (string \<times> pyval) list"

text \<open>
  A class handed to a decorator: its name, its class-level data attributes (visible on
  every instance), and what its \<^verbatim>\<open>__init__\<close> does to an instance for given arguments
  (the exception it raises, if any, and the instance as it has left it).
  \<open>cls_is_object\<close> marks the builtin \<^verbatim>\<open>object\<close>.
\<close>

record pyclass =
  cls_name :: string
  cls_attrs :: "string \<rightharpoonup> pyval"
  cls_init :: "pyargs \<Rightarrow> pyinstance \<Rightarrow> exn option \<times> pyinstance"
  cls_is_object :: bool

text \<open>
  Everything outside the repository is a parameter:
  \<^item> \<open>getitem\<close>: what subscripting an opaque object with a name gives (\<^verbatim>\<open>db[name]\<close>);
  \<^item> \<open>respond\<close>: what a method call on an opaque object returns or raises, as a function
    of the calls made so far (so the collaborator may be stateful, and a cursor may be
    changed by \<^verbatim>\<open>limit\<close>);
  \<^item> \<open>wraps\<close>: what \<^verbatim>\<open>functools.wraps(cls)\<close> does when applied to the freshly built
    class: \<open>None\<close> when it returns the class, \<open>Some e\<close> when it raises. (The
    standard library's \<^verbatim>\<open>update_wrapper\<close> updates \<^verbatim>\<open>__dict__\<close> of its target, which
    for a class is a read-only proxy; the repository's tests put their own \<^verbatim>\<open>wraps\<close>
    in its place.)
\<close>

record env =
  getitem :: "pyval \<Rightarrow> string \<Rightarrow> exn + pyval"
  respond :: "event list \<Rightarrow> event \<Rightarrow> exn + pyval"
  wraps :: "pyclass \<Rightarrow> exn option"

definition quote :: "string \<Rightarrow> string" where
  "quote s = CHR 0x27 # s @ [CHR 0x27]"

fun type_name :: "pyval \<Rightarrow> string" where
  "type_name PNone = ''NoneType''"
| "type_name (PBool _) = ''bool''"
| "type_name (PInt _) = ''int''"
| "type_name (PStr _) = ''str''"
| "type_name (PList _) = ''list''"
| "type_name (PDict _) = ''dict''"
| "type_name (PObj l) = l"

definition no_attribute :: "string \<Rightarrow> string \<Rightarrow> exn" where
  "no_attribute ty a = AttributeError (quote ty @ '' object has no attribute '' @ quote a)"

text \<open>
  Truth value testing, as \<^verbatim>\<open>not x\<close>, \<^verbatim>\<open>x or y\<close> and \<^verbatim>\<open>if x:\<close> use it. An opaque object
  is taken to define neither \<^verbatim>\<open>__bool__\<close> nor \<^verbatim>\<open>__len__\<close>, so it is true.
\<close>

fun truthy :: "pyval \<Rightarrow> bool" where
  "truthy PNone = False"
| "truthy (PBool b) = b"
| "truthy (PInt n) = (n \<noteq> 0)"
| "truthy (PStr s) = (s \<noteq> [])"
| "truthy (PList xs) = (xs \<noteq> [])"
| "truthy (PDict kvs) = (kvs \<noteq> [])"
| "truthy (PObj _) = True"

definition py_or :: "pyval \<Rightarrow> pyval \<Rightarrow> pyval" where
  "py_or a b = (if truthy a then a else b)"

text \<open>A parameter with a default: \<open>None\<close> is "argument omitted".\<close>

definition default_arg :: "'a \<Rightarrow> 'a option \<Rightarrow> 'a" where
  "default_arg d a = (case a of None \<Rightarrow> d | Some v \<Rightarrow> v)"

definition hasattr :: "pyinstance \<Rightarrow> string \<Rightarrow> bool" where
  "hasattr self a = (attrs self a \<noteq> None)"

definition getattr :: "pyinstance \<Rightarrow> string \<Rightarrow> exn + pyval" where
  "getattr self a =
     (case attrs self a of
        None \<Rightarrow> Inl (no_attribute (class_name self) a)
      | Some v \<Rightarrow> Inr v)"

definition setattr :: "pyinstance \<Rightarrow> string \<Rightarrow> pyval \<Rightarrow> pyinstance" where
  "setattr self a v = self\<lparr>attrs := (attrs self)(a \<mapsto> v)\<rparr>"

text \<open>
  \<^verbatim>\<open>str.find\<close> is the one method of a builtin type that shares its name with a method
  the code calls on the collection: the lowest index of the substring, or -1.
\<close>

fun str_find :: "string \<Rightarrow> string \<Rightarrow> int \<Rightarrow> int" where
  "str_find sub [] i = (if sub = [] then i else - 1)"
| "str_find sub (c # s) i =
     (if take (length sub) (c # s) = sub then i else str_find sub s (i + 1))"

text \<open>
  \<^verbatim>\<open>recv.m(*args, **kwargs)\<close>. A call on an opaque object is logged and answered by the
  environment; \<^verbatim>\<open>None\<close> and the builtin data types have none of the methods the code
  calls (apart from \<^verbatim>\<open>str.find\<close>), so the attribute lookup raises before any call.
\<close>

definition call_method ::
  "env \<Rightarrow> pyval \<Rightarrow> string \<Rightarrow> pyval list \<Rightarrow> (string \<times> pyval) list \<Rightarrow> event list \<Rightarrow> pyval outcome"
where
  "call_method e recv m args kwargs log =
     (case recv of
        PObj l \<Rightarrow> (respond e log (Call recv m args kwargs), log @ [Call recv m args kwargs])
      | PStr s \<Rightarrow>
          (if m = ''find'' then
             (case (args, kwargs) of
                ([PStr sub], []) \<Rightarrow> (Inr (PInt (str_find sub s 0)), log)
              | _ \<Rightarrow> (Inl (TypeError ''must be str''), log))
           else (Inl (no_attribute (type_name recv) m), log))
      | _ \<Rightarrow> (Inl (no_attribute (type_name recv) m), log))"

text \<open>\<^verbatim>\<open>self.a.m(*args, **kwargs)\<close>: the attribute is read, then the method is called.\<close>

definition call_attr ::
  "env \<Rightarrow> pyinstance \<Rightarrow> string \<Rightarrow> string \<Rightarrow> pyval list \<Rightarrow> (string \<times> pyval) list \<Rightarrow> event list
     \<Rightarrow> pyval outcome"
where
  "call_attr e self a m args kwargs log =
     (case getattr self a of
        Inl x \<Rightarrow> (Inl x, log)
      | Inr recv \<Rightarrow> call_method e recv m args kwargs log)"

text \<open>
  \<^verbatim>\<open>list(cursor)\<close>. Iterating an opaque object is a call on it, answered by the
  environment with the sequence it yields.
\<close>

definition py_list :: "env \<Rightarrow> pyval \<Rightarrow> event list \<Rightarrow> pyval outcome" where
  "py_list e v log =
     (case v of
        PList xs \<Rightarrow> (Inr (PList xs), log)
      | PDict kvs \<Rightarrow> (Inr (PList (map (\<lambda>kv. PStr (fst kv)) kvs)), log)
      | PStr s \<Rightarrow> (Inr (PList (map (\<lambda>c. PStr [c]) s)), log)
      | PObj l \<Rightarrow>
          (case respond e log (Call v ''__iter__'' [] []) of
             Inl x \<Rightarrow> (Inl x, log @ [Call v ''__iter__'' [] []])
           | Inr (PList xs) \<Rightarrow> (Inr (PList xs), log @ [Call v ''__iter__'' [] []])
           | Inr _ \<Rightarrow> (Inl (TypeError ''iter() returned non-iterator''),
                       log @ [Call v ''__iter__'' [] []]))
      | _ \<Rightarrow> (Inl (TypeError (quote (type_name v) @ '' object is not iterable'')), log))"

text \<open>
  \<^verbatim>\<open>v > k\<close> for an integer \<open>k\<close>. \<^verbatim>\<open>bool\<close> is a subtype of \<^verbatim>\<open>int\<close>; no other type
  of the model is ordered against an integer.
\<close>

definition py_gt :: "pyval \<Rightarrow> int \<Rightarrow> exn + pyval" where
  "py_gt v k =
     (case v of
        PInt n \<Rightarrow> Inr (PBool (n > k))
      | PBool b \<Rightarrow> Inr (PBool ((if b then 1 else 0) > k))
      | _ \<Rightarrow> Inl (TypeError (quote ''>'' @ '' not supported between instances of ''
                      @ quote (type_name v) @ '' and '' @ quote ''int'')))"

text \<open>
  \<^verbatim>\<open>v[name]\<close> for a string \<open>name\<close>: a dictionary is looked up, an opaque object is
  asked, nothing else can be subscripted with a string.
\<close>

definition py_getitem :: "env \<Rightarrow> pyval \<Rightarrow> string \<Rightarrow> exn + pyval" where
  "py_getitem e v name =
     (case v of
        PObj l \<Rightarrow> getitem e v name
      | PDict kvs \<Rightarrow>
          (case map_of kvs name of None \<Rightarrow> Inl (KeyError (quote name)) | Some x \<Rightarrow> Inr x)
      | PStr s \<Rightarrow> Inl (TypeError ''string indices must be integers'')
      | PList xs \<Rightarrow> Inl (TypeError ''list indices must be integers or slices, not str'')
      | _ \<Rightarrow> Inl (TypeError (quote (type_name v) @ '' object is not subscriptable'')))"

section \<open>CRUDMixin\<close>

definition no_collection_error :: exn where
  "no_collection_error =
     AttributeError ''No collection found. Ensure class is decorated with @injector.collection()''"

definition id_filter :: "pyval \<Rightarrow> pyval" where
  "id_filter doc_id = PDict [(''_id'', doc_id)]"

definition create :: "env \<Rightarrow> pyinstance \<Rightarrow> pyval \<Rightarrow> event list \<Rightarrow> pyval outcome" where
  "create e self data log =
     (if \<not> hasattr self ''collection'' then (Inl no_collection_error, log)
      else call_attr e self ''collection'' ''insert_one'' [data] [] log)"

definition create_many :: "env \<Rightarrow> pyinstance \<Rightarrow> pyval \<Rightarrow> event list \<Rightarrow> pyval outcome" where
  "create_many e self data log =
     (if \<not> hasattr self ''collection'' then (Inl no_collection_error, log)
      else call_attr e self ''collection'' ''insert_many'' [data] [] log)"

definition find_by_id :: "env \<Rightarrow> pyinstance \<Rightarrow> pyval \<Rightarrow> event list \<Rightarrow> pyval outcome" where
  "find_by_id e self doc_id log =
     (if \<not> hasattr self ''collection'' then (Inl no_collection_error, log)
      else call_attr e self ''collection'' ''find_one'' [id_filter doc_id] [] log)"

definition find_one :: "env \<Rightarrow> pyinstance \<Rightarrow> pyval \<Rightarrow> event list \<Rightarrow> pyval outcome" where
  "find_one e self query log =
     (if \<not> hasattr self ''collection'' then (Inl no_collection_error, log)
      else call_attr e self ''collection'' ''find_one'' [query] [] log)"

definition find_many ::
  "env \<Rightarrow> pyinstance \<Rightarrow> pyval option \<Rightarrow> pyval option \<Rightarrow> event list \<Rightarrow> pyval outcome"
where
  "find_many e self query limit log =
     (if \<not> hasattr self ''collection'' then (Inl no_collection_error, log)
      else
        (case call_attr e self ''collection'' ''find''
                [py_or (default_arg PNone query) (PDict [])] [] log of
           (Inl x, log1) \<Rightarrow> (Inl x, log1)
         | (Inr cursor, log1) \<Rightarrow>
             (if truthy (default_arg PNone limit) then
                (case call_method e cursor ''limit'' [default_arg PNone limit] [] log1 of
                   (Inl x, log2) \<Rightarrow> (Inl x, log2)
                 | (Inr cursor2, log2) \<Rightarrow> py_list e cursor2 log2)
              else py_list e cursor log1)))"

definition find_all ::
  "env \<Rightarrow> pyinstance \<Rightarrow> pyval option \<Rightarrow> pyval option \<Rightarrow> event list \<Rightarrow> pyval outcome"
where
  "find_all e self query limit log =
     (if \<not> hasattr self ''collection'' then (Inl no_collection_error, log)
      else
        (case call_attr e self ''collection'' ''find''
                [py_or (default_arg PNone query) (PDict [])] [] log of
           (Inl x, log1) \<Rightarrow> (Inl x, log1)
         | (Inr cursor, log1) \<Rightarrow>
             (if truthy (default_arg PNone limit) then
                (case call_method e cursor ''limit'' [default_arg PNone limit] [] log1 of
                   (Inl x, log2) \<Rightarrow> (Inl x, log2)
                 | (Inr cursor2, log2) \<Rightarrow> py_list e cursor2 log2)
              else py_list e cursor log1)))"

definition update_by_id ::
  "env \<Rightarrow> pyinstance \<Rightarrow> pyval \<Rightarrow> pyval \<Rightarrow> event list \<Rightarrow> pyval outcome"
where
  "update_by_id e self doc_id update_data log =
     (if \<not> hasattr self ''collection'' then (Inl no_collection_error, log)
      else call_attr e self ''collection'' ''update_one'' [id_filter doc_id, update_data] [] log)"

definition update_one ::
  "env \<Rightarrow> pyinstance \<Rightarrow> pyval \<Rightarrow> pyval \<Rightarrow> event list \<Rightarrow> pyval outcome"
where
  "update_one e self query update log =
     (if \<not> hasattr self ''collection'' then (Inl no_collection_error, log)
      else call_attr e self ''collection'' ''update_one'' [query, update] [] log)"

definition update_many ::
  "env \<Rightarrow> pyinstance \<Rightarrow> pyval \<Rightarrow> pyval \<Rightarrow> event list \<Rightarrow> pyval outcome"
where
  "update_many e self query update log =
     (if \<not> hasattr self ''collection'' then (Inl no_collection_error, log)
      else call_attr e self ''collection'' ''update_many'' [query, update] [] log)"

definition delete_by_id :: "env \<Rightarrow> pyinstance \<Rightarrow> pyval \<Rightarrow> event list \<Rightarrow> pyval outcome" where
  "delete_by_id e self doc_id log =
     (if \<not> hasattr self ''collection'' then (Inl no_collection_error, log)
      else call_attr e self ''collection'' ''delete_one'' [id_filter doc_id] [] log)"

definition delete_one :: "env \<Rightarrow> pyinstance \<Rightarrow> pyval \<Rightarrow> event list \<Rightarrow> pyval outcome" where
  "delete_one e self query log =
     (if \<not> hasattr self ''collection'' then (Inl no_collection_error, log)
      else call_attr e self ''collection'' ''delete_one'' [query] [] log)"

definition delete_many :: "env \<Rightarrow> pyinstance \<Rightarrow> pyval \<Rightarrow> event list \<Rightarrow> pyval outcome" where
  "delete_many e self query log =
     (if \<not> hasattr self ''collection'' then (Inl no_collection_error, log)
      else call_attr e self ''collection'' ''delete_many'' [query] [] log)"

definition count_documents ::
  "env \<Rightarrow> pyinstance \<Rightarrow> pyval option \<Rightarrow> event list \<Rightarrow> pyval outcome"
where
  "count_documents e self query log =
     (if \<not> hasattr self ''collection'' then (Inl no_collection_error, log)
      else call_attr e self ''collection'' ''count_documents''
             [py_or (default_arg PNone query) (PDict [])] [] log)"

text \<open>
  \<^verbatim>\<open>count\<close> passes its own parameter (\<^verbatim>\<open>None\<close> when omitted) on to
  \<^verbatim>\<open>self.count_documents\<close> as an explicit argument. The call is resolved to the
  mixin's own method: the mixin is modelled as it stands, without overrides by a user
  class.
\<close>

definition count :: "env \<Rightarrow> pyinstance \<Rightarrow> pyval option \<Rightarrow> event list \<Rightarrow> pyval outcome" where
  "count e self query log = count_documents e self (Some (default_arg PNone query)) log"

definition exists :: "env \<Rightarrow> pyinstance \<Rightarrow> pyval \<Rightarrow> event list \<Rightarrow> pyval outcome" where
  "exists e self query log =
     (if \<not> hasattr self ''collection'' then (Inl no_collection_error, log)
      else
        (case call_attr e self ''collection'' ''count_documents'' [query] [(''limit'', PInt 1)] log of
           (Inl x, log1) \<Rightarrow> (Inl x, log1)
         | (Inr n, log1) \<Rightarrow> (py_gt n 0, log1)))"

text \<open>The fifteen operations of the mixin, as one call on an instance.\<close>

datatype operation =
    Create pyval
  | CreateMany pyval
  | FindById pyval
  | FindOne pyval
  | FindMany "pyval option" "pyval option"
  | FindAll "pyval option" "pyval option"
  | UpdateById pyval pyval
  | UpdateOne pyval pyval
  | UpdateMany pyval pyval
  | DeleteById pyval
  | DeleteOne pyval
  | DeleteMany pyval
  | CountDocuments "pyval option"
  | Count "pyval option"
  | Exists pyval

fun invoke :: "env \<Rightarrow> pyinstance \<Rightarrow> operation \<Rightarrow> event list \<Rightarrow> pyval outcome" where
  "invoke e self (Create d) log = create e self d log"
| "invoke e self (CreateMany d) log = create_many e self d log"
| "invoke e self (FindById i) log = find_by_id e self i log"
| "invoke e self (FindOne q) log = find_one e self q log"
| "invoke e self (FindMany q l) log = find_many e self q l log"
| "invoke e self (FindAll q l) log = find_all e self q l log"
| "invoke e self (UpdateById i u) log = update_by_id e self i u log"
| "invoke e self (UpdateOne q u) log = update_one e self q u log"
| "invoke e self (UpdateMany q u) log = update_many e self q u log"
| "invoke e self (DeleteById i) log = delete_by_id e self i log"
| "invoke e self (DeleteOne q) log = delete_one e self q log"
| "invoke e self (DeleteMany q) log = delete_many e self q log"
| "invoke e self (CountDocuments q) log = count_documents e self q log"
| "invoke e self (Count q) log = count e self q log"
| "invoke e self (Exists q) log = exists e self q log"

text \<open>The method of the collection that an operation calls first.\<close>

fun boundary_method :: "operation \<Rightarrow> string" where
  "boundary_method (Create _) = ''insert_one''"
| "boundary_method (CreateMany _) = ''insert_many''"
| "boundary_method (FindById _) = ''find_one''"
| "boundary_method (FindOne _) = ''find_one''"
| "boundary_method (FindMany _ _) = ''find''"
| "boundary_method (FindAll _ _) = ''find''"
| "boundary_method (UpdateById _ _) = ''update_one''"
| "boundary_method (UpdateOne _ _) = ''update_one''"
| "boundary_method (UpdateMany _ _) = ''update_many''"
| "boundary_method (DeleteById _) = ''delete_one''"
| "boundary_method (DeleteOne _) = ''delete_one''"
| "boundary_method (DeleteMany _) = ''delete_many''"
| "boundary_method (CountDocuments _) = ''count_documents''"
| "boundary_method (Count _) = ''count_documents''"
| "boundary_method (Exists _) = ''count_documents''"

text \<open>
  The lookup the specification describes for \<^verbatim>\<open>findMany\<close> and \<^verbatim>\<open>findAll\<close> without a
  cap: \<^verbatim>\<open>find\<close> with the given filter on the given collection, then the cursor
  materialised as it is. The operations above are compared with it.
\<close>

definition find_unlimited :: "env \<Rightarrow> pyval \<Rightarrow> pyval \<Rightarrow> event list \<Rightarrow> pyval outcome" where
  "find_unlimited e coll query log =
     (case call_method e coll ''find'' [query] [] log of
        (Inl x, log1) \<Rightarrow> (Inl x, log1)
      | (Inr cursor, log1) \<Rightarrow> py_list e cursor log1)"

text \<open>
  The same lookup with a cap: \<^verbatim>\<open>find\<close>, then \<^verbatim>\<open>limit\<close> with the given value on the
  cursor that \<^verbatim>\<open>find\<close> returned, then the cursor that \<^verbatim>\<open>limit\<close> returned
  materialised as it is.
\<close>

definition find_limited ::
  "env \<Rightarrow> pyval \<Rightarrow> pyval \<Rightarrow> pyval \<Rightarrow> event list \<Rightarrow> pyval outcome"
where
  "find_limited e coll query limit log =
     (case call_method e coll ''find'' [query] [] log of
        (Inl x, log1) \<Rightarrow> (Inl x, log1)
      | (Inr cursor, log1) \<Rightarrow>
          (case call_method e cursor ''limit'' [limit] [] log1 of
             (Inl x, log2) \<Rightarrow> (Inl x, log2)
           | (Inr cursor2, log2) \<Rightarrow> py_list e cursor2 log2))"

section \<open>CollectionInjector\<close>

record injector =
  db :: pyval

definition injector_init :: "pyval \<Rightarrow> exn + injector" where
  "injector_init d =
     (if d = PNone then Inl (ValueError ''Database instance cannot be None'')
      else Inr \<lparr>db = d\<rparr>)"

text \<open>What a decorator is applied to: a class, or some other value.\<close>

datatype target = NotAType pyval | AType pyclass

datatype base = UserBase pyclass | CRUDMixinBase

text \<open>
  The closure returned by \<^verbatim>\<open>collection(name, with_crud)\<close>: the injector, the name and
  the flag it has captured.
\<close>

record decorator =
  dec_injector :: injector
  dec_name :: string
  dec_with_crud :: bool

fun is_str :: "pyval \<Rightarrow> bool" where
  "is_str (PStr _) = True"
| "is_str _ = False"

fun str_value :: "pyval \<Rightarrow> string" where
  "str_value (PStr s) = s"
| "str_value _ = []"

text \<open>
  \<^verbatim>\<open>if not name or not isinstance(name, str)\<close>: the second test is evaluated only
  when the first is false.
\<close>

definition collection :: "injector \<Rightarrow> pyval \<Rightarrow> bool option \<Rightarrow> exn + decorator" where
  "collection self name with_crud =
     (if \<not> truthy name
      then Inl (ValueError ''Collection name must be a non-empty string'')
      else if \<not> is_str name
      then Inl (ValueError ''Collection name must be a non-empty string'')
      else Inr \<lparr>dec_injector = self, dec_name = str_value name,
                dec_with_crud = default_arg True with_crud\<rparr>)"

definition not_accessible :: "string \<Rightarrow> exn" where
  "not_accessible name =
     KeyError (''Collection '' @ quote name @ '' not accessible in database'')"

text \<open>
  The validation at decoration time: \<^verbatim>\<open>self.db[name]\<close> on the injector, inside
  \<^verbatim>\<open>try ... except (KeyError, AttributeError)\<close>. The result is the exception that
  leaves the block, if any.
\<close>

definition probe :: "env \<Rightarrow> injector \<Rightarrow> string \<Rightarrow> exn option" where
  "probe e self name =
     (case py_getitem e (db self) name of
        Inl (KeyError m) \<Rightarrow> Some (not_accessible name)
      | Inl (AttributeError m) \<Rightarrow> Some (not_accessible name)
      | Inl x \<Rightarrow> Some x
      | Inr v \<Rightarrow> None)"

definition base_classes_of :: "pyclass \<Rightarrow> bool \<Rightarrow> base list" where
  "base_classes_of cls with_crud =
     [UserBase cls] @ (if with_crud then [CRUDMixinBase] else [])"

text \<open>
  The statement \<^verbatim>\<open>class Wrapped(*base_classes)\<close>: the bases \<^verbatim>\<open>(object, CRUDMixin)\<close>
  have no consistent method resolution order, every other list the code builds has.
\<close>

definition class_statement :: "base list \<Rightarrow> exn option" where
  "class_statement bases =
     (case bases of
        [UserBase c, CRUDMixinBase] \<Rightarrow>
          (if cls_is_object c then Some (TypeError ''Cannot create a consistent MRO'')
           else None)
      | _ \<Rightarrow> None)"

text \<open>
  The class \<^verbatim>\<open>Wrapped\<close> built by \<^verbatim>\<open>collection\<close>: the values its methods close over.
\<close>

record wrapped =
  w_cls :: pyclass
  w_base_classes :: "base list"
  w_name :: string
  w_with_crud :: bool

definition wrapper :: "env \<Rightarrow> decorator \<Rightarrow> target \<Rightarrow> exn + wrapped" where
  "wrapper e d tgt =
     (case tgt of
        NotAType v \<Rightarrow> Inl (TypeError ''Decorator can only be applied to classes'')
      | AType cls \<Rightarrow>
          (case probe e (dec_injector d) (dec_name d) of
             Some x \<Rightarrow> Inl x
           | None \<Rightarrow>
               (case class_statement (base_classes_of cls (dec_with_crud d)) of
                  Some x \<Rightarrow> Inl x
                | None \<Rightarrow>
                    (case wraps e cls of
                       Some x \<Rightarrow> Inl x
                     | None \<Rightarrow>
                         Inr \<lparr>w_cls = cls,
                              w_base_classes = base_classes_of cls (dec_with_crud d),
                              w_name = dec_name d,
                              w_with_crud = dec_with_crud d\<rparr>))))"

text \<open>
  \<^verbatim>\<open>object.__init__\<close> on an instance of a class that defines \<^verbatim>\<open>__init__\<close> (as
  \<^verbatim>\<open>Wrapped\<close> does): excess arguments are a \<^verbatim>\<open>TypeError\<close>. \<^verbatim>\<open>CRUDMixin\<close> defines no
  \<^verbatim>\<open>__init__\<close>, so \<^verbatim>\<open>CRUDMixin.__init__\<close> is this one.
\<close>

definition object_init :: "pyargs \<Rightarrow> pyinstance \<Rightarrow> exn option \<times> pyinstance" where
  "object_init args self =
     (if args = ([], []) then (None, self)
      else (Some (TypeError ''object.__init__() takes exactly one argument''), self))"

fun base_init :: "base \<Rightarrow> pyargs \<Rightarrow> pyinstance \<Rightarrow> exn option \<times> pyinstance" where
  "base_init (UserBase c) = (if cls_is_object c then object_init else cls_init c)"
| "base_init CRUDMixinBase = object_init"

fun base_is_object :: "base \<Rightarrow> bool" where
  "base_is_object (UserBase c) = cls_is_object c"
| "base_is_object CRUDMixinBase = False"

text \<open>
  The loop over \<^verbatim>\<open>base_classes\<close> in \<^verbatim>\<open>Wrapped.__init__\<close>. Every class has an
  \<^verbatim>\<open>__init__\<close>, so the \<^verbatim>\<open>hasattr\<close> test of the loop body always holds. A
  \<^verbatim>\<open>TypeError\<close> from the first call is caught and the initialiser is called again
  without arguments, on the instance as the first call left it; any other exception,
  and any exception of the second call, leaves the constructor.
\<close>

fun init_bases :: "base list \<Rightarrow> pyargs \<Rightarrow> pyinstance \<Rightarrow> exn + pyinstance" where
  "init_bases [] args self = Inr self"
| "init_bases (b # bs) args self =
     (case base_init b args self of
        (None, self1) \<Rightarrow> init_bases bs args self1
      | (Some (TypeError m), self1) \<Rightarrow>
          (if \<not> base_is_object b then
             (case base_init b ([], []) self1 of
                (None, self2) \<Rightarrow> init_bases bs args self2
              | (Some x, self2) \<Rightarrow> Inl x)
           else init_bases bs args self1)
      | (Some x, self1) \<Rightarrow> Inl x)"

text \<open>
  \<^verbatim>\<open>setattr(self, a, self.db[name])\<close> inside \<^verbatim>\<open>Wrapped.__init__\<close>. There \<^verbatim>\<open>self\<close> is
  the instance under construction (the parameter of \<^verbatim>\<open>__init__\<close> hides the injector
  of the enclosing method), so \<^verbatim>\<open>self.db\<close> is an attribute lookup on the instance.
\<close>

definition inject :: "env \<Rightarrow> pyinstance \<Rightarrow> string \<Rightarrow> string \<Rightarrow> exn + pyinstance" where
  "inject e self a name =
     (case getattr self ''db'' of
        Inl x \<Rightarrow> Inl x
      | Inr d \<Rightarrow>
          (case py_getitem e d name of
             Inl x \<Rightarrow> Inl x
           | Inr c \<Rightarrow> Inr (setattr self a c)))"

definition wrapped_init :: "env \<Rightarrow> wrapped \<Rightarrow> pyargs \<Rightarrow> pyinstance \<Rightarrow> exn + pyinstance" where
  "wrapped_init e w args self =
     (case init_bases (w_base_classes w) args self of
        Inl x \<Rightarrow> Inl x
      | Inr self1 \<Rightarrow> inject e self1 ''collection'' (w_name w))"

text \<open>
  A fresh instance sees the class attributes of the user's class and carries its name
  (\<^verbatim>\<open>Wrapped.__name__ = cls.__name__\<close>); calling the class runs \<^verbatim>\<open>__init__\<close> on it.
\<close>

definition new_instance :: "pyclass \<Rightarrow> pyinstance" where
  "new_instance cls = \<lparr>class_name = cls_name cls, attrs = cls_attrs cls\<rparr>"

definition construct :: "env \<Rightarrow> wrapped \<Rightarrow> pyargs \<Rightarrow> exn + pyinstance" where
  "construct e w args = wrapped_init e w args (new_instance (w_cls w))"

text \<open>
  \<^verbatim>\<open>multiple_collections(with_crud, **collections)\<close>: the keyword arguments in the
  order they were written, attribute name first, collection name second.
\<close>

record multi_decorator =
  md_injector :: injector
  md_collections :: "(string \<times> string) list"
  md_with_crud :: bool

definition multiple_collections ::
  "injector \<Rightarrow> bool option \<Rightarrow> (string \<times> string) list \<Rightarrow> exn + multi_decorator"
where
  "multiple_collections self with_crud collections =
     (if collections = [] then Inl (ValueError ''At least one collection must be specified'')
      else Inr \<lparr>md_injector = self, md_collections = collections,
                md_with_crud = default_arg False with_crud\<rparr>)"

fun probe_all :: "env \<Rightarrow> injector \<Rightarrow> (string \<times> string) list \<Rightarrow> exn option" where
  "probe_all e self [] = None"
| "probe_all e self ((attr_name, collection_name) # cs) =
     (case probe e self collection_name of
        Some x \<Rightarrow> Some x
      | None \<Rightarrow> probe_all e self cs)"

record wrapped_multi =
  wm_cls :: pyclass
  wm_base_classes :: "base list"
  wm_collections :: "(string \<times> string) list"
  wm_with_crud :: bool

definition wrapper_multi :: "env \<Rightarrow> multi_decorator \<Rightarrow> target \<Rightarrow> exn + wrapped_multi" where
  "wrapper_multi e d tgt =
     (case tgt of
        NotAType v \<Rightarrow> Inl (TypeError ''Decorator can only be applied to classes'')
      | AType cls \<Rightarrow>
          (case probe_all e (md_injector d) (md_collections d) of
             Some x \<Rightarrow> Inl x
           | None \<Rightarrow>
               (case class_statement (base_classes_of cls (md_with_crud d)) of
                  Some x \<Rightarrow> Inl x
                | None \<Rightarrow>
                    (case wraps e cls of
                       Some x \<Rightarrow> Inl x
                     | None \<Rightarrow>
                         Inr \<lparr>wm_cls = cls,
                              wm_base_classes = base_classes_of cls (md_with_crud d),
                              wm_collections = md_collections d,
                              wm_with_crud = md_with_crud d\<rparr>))))"

fun inject_all :: "env \<Rightarrow> pyinstance \<Rightarrow> (string \<times> string) list \<Rightarrow> exn + pyinstance" where
  "inject_all e self [] = Inr self"
| "inject_all e self ((attr_name, collection_name) # cs) =
     (case inject e self attr_name collection_name of
        Inl x \<Rightarrow> Inl x
      | Inr self1 \<Rightarrow> inject_all e self1 cs)"

definition wrapped_multi_init ::
  "env \<Rightarrow> wrapped_multi \<Rightarrow> pyargs \<Rightarrow> pyinstance \<Rightarrow> exn + pyinstance"
where
  "wrapped_multi_init e w args self =
     (case init_bases (wm_base_classes w) args self of
        Inl x \<Rightarrow> Inl x
      | Inr self1 \<Rightarrow>
          (case inject_all e self1 (wm_collections w) of
             Inl x \<Rightarrow> Inl x
           | Inr self2 \<Rightarrow>
               (if wm_with_crud w \<and> wm_collections w \<noteq> [] then
                  (case wm_collections w of
                     (attr_name, first_collection) # cs \<Rightarrow>
                       inject e self2 ''collection'' first_collection
                   | [] \<Rightarrow> Inr self2)
                else Inr self2)))"

definition construct_multi :: "env \<Rightarrow> wrapped_multi \<Rightarrow> pyargs \<Rightarrow> exn + pyinstance" where
  "construct_multi e w args = wrapped_multi_init e w args (new_instance (wm_cls w))"

section \<open>Fixtures for evaluation\<close>

text \<open>
  A small driver: one database handle with the collections \<open>a\<close>, \<open>b\<close> and \<open>users\<close>; a
  lookup of any other name fails with the driver's own error class. \<^verbatim>\<open>find\<close> on a
  collection gives a cursor over three documents; \<^verbatim>\<open>limit\<close> changes that cursor and
  returns it; iterating it yields the documents, cut to the last positive limit set.
\<close>

definition demo_db :: pyval where
  "demo_db = PObj ''Database''"

definition demo_docs :: "pyval list" where
  "demo_docs = [PDict [(''n'', PInt 1)], PDict [(''n'', PInt 2)], PDict [(''n'', PInt 3)]]"

fun last_limit :: "event list \<Rightarrow> int option" where
  "last_limit [] = None"
| "last_limit (Call r m args kw # evs) =
     (case last_limit evs of
        Some n \<Rightarrow> Some n
      | None \<Rightarrow> (case (m = ''limit'', args) of (True, [PInt n]) \<Rightarrow> Some n | _ \<Rightarrow> None))"

definition demo_respond :: "event list \<Rightarrow> event \<Rightarrow> exn + pyval" where
  "demo_respond log ev =
     (case ev of Call r m args kw \<Rightarrow>
        (if m = ''find'' then Inr (PObj ''Cursor'')
         else if m = ''limit'' then Inr r
         else if m = ''__iter__'' then
           (case last_limit log of
              Some n \<Rightarrow> Inr (PList (if n > 0 then take (nat n) demo_docs else demo_docs))
            | None \<Rightarrow> Inr (PList demo_docs))
         else if m = ''count_documents'' then
           (if kw = [(''limit'', PInt 1)] then Inr (PInt 1) else Inr (PInt 3))
         else Inr (PObj ''Result'')))"

definition demo_getitem :: "pyval \<Rightarrow> string \<Rightarrow> exn + pyval" where
  "demo_getitem v name =
     (if v = demo_db \<and> name \<in> set [''a'', ''b'', ''users''] then Inr (PObj name)
      else Inl (DriverError ''InvalidName''))"

definition demo_env :: env where
  "demo_env = \<lparr>getitem = demo_getitem, respond = demo_respond, wraps = (\<lambda>c. None)\<rparr>"

text \<open>
  A second driver, a stub whose cursor takes \<^verbatim>\<open>limit\<close> and yields all three documents
  all the same.
\<close>

definition mock_respond :: "event list \<Rightarrow> event \<Rightarrow> exn + pyval" where
  "mock_respond log ev =
     (case ev of Call r m args kw \<Rightarrow>
        (if m = ''find'' then Inr (PObj ''Cursor'')
         else if m = ''limit'' then Inr r
         else if m = ''__iter__'' then Inr (PList demo_docs)
         else Inr (PObj ''Result'')))"

definition mock_env :: env where
  "mock_env = \<lparr>getitem = demo_getitem, respond = mock_respond, wraps = (\<lambda>c. None)\<rparr>"

definition bare_instance :: pyinstance where
  "bare_instance = \<lparr>class_name = ''UserService'', attrs = Map.empty\<rparr>"

definition bound_instance :: pyinstance where
  "bound_instance = setattr bare_instance ''collection'' (PObj ''users'')"

definition unset_instance :: pyinstance where
  "unset_instance = setattr bound_instance ''collection'' PNone"

text \<open>
  An injector over the demo database, one over a plain dictionary, and two user classes
  without an \<^verbatim>\<open>__init__\<close> of their own: \<^verbatim>\<open>class UserService: pass\<close>, and the same
  with a class attribute \<^verbatim>\<open>db\<close> holding the database handle.
\<close>

definition demo_injector :: injector where
  "demo_injector = \<lparr>db = demo_db\<rparr>"

definition dict_injector :: injector where
  "dict_injector = \<lparr>db = PDict [(''users'', PObj ''users'')]\<rparr>"

definition plain_class :: pyclass where
  "plain_class =
     \<lparr>cls_name = ''UserService'', cls_attrs = Map.empty, cls_init = object_init,
      cls_is_object = False\<rparr>"

definition db_class :: pyclass where
  "db_class =
     \<lparr>cls_name = ''UserService'', cls_attrs = [''db'' \<mapsto> demo_db], cls_init = object_init,
      cls_is_object = False\<rparr>"

definition users_decorator :: decorator where
  "users_decorator =
     \<lparr>dec_injector = demo_injector, dec_name = ''users'', dec_with_crud = True\<rparr>"

definition users_wrapped :: wrapped where
  "users_wrapped =
     \<lparr>w_cls = plain_class, w_base_classes = [UserBase plain_class, CRUDMixinBase],
      w_name = ''users'', w_with_crud = True\<rparr>"

definition pair_decorator :: multi_decorator where
  "pair_decorator =
     \<lparr>md_injector = demo_injector,
      md_collections = [(''primary'', ''a''), (''secondary'', ''b'')],
      md_with_crud = True\<rparr>"

definition pair_wrapped :: wrapped_multi where
  "pair_wrapped =
     \<lparr>wm_cls = plain_class, wm_base_classes = [UserBase plain_class, CRUDMixinBase],
      wm_collections = [(''primary'', ''a''), (''secondary'', ''b'')],
      wm_with_crud = True\<rparr>"

section \<open>Guard of the capability set\<close>

lemma hasattr_setattr: "hasattr (setattr self a v) a"
  by (simp add: hasattr_def setattr_def)

lemma getattr_setattr: "getattr (setattr self a v) a = Inr v"
  by (simp add: getattr_def setattr_def)

lemma not_hasattr_bare: "\<not> hasattr bare_instance a"
  by (simp add: hasattr_def bare_instance_def)

text \<open>
  C1. On an instance without a \<^verbatim>\<open>collection\<close> attribute, each of the fifteen operations
  raises the "No collection found" \<^verbatim>\<open>AttributeError\<close> and leaves the log of boundary
  calls as it was: nothing is called.
\<close>

theorem missing_collection_guard:
  assumes "\<not> hasattr self ''collection''"
  shows "invoke e self op log = (Inl no_collection_error, log)"
  using assms
  by (cases op)
     (simp_all add: create_def create_many_def find_by_id_def find_one_def find_many_def
        find_all_def update_by_id_def update_one_def update_many_def delete_by_id_def
        delete_one_def delete_many_def count_documents_def count_def exists_def)

theorem missing_collection_guard_witness:
  "\<not> hasattr bare_instance ''collection'' \<and>
   invoke demo_env bare_instance (Exists (PDict [])) [] = (Inl no_collection_error, [])"
  using missing_collection_guard [of bare_instance demo_env "Exists (PDict [])" "[]"]
  by (simp add: not_hasattr_bare)

lemma attrs_unset: "attrs unset_instance ''collection'' = Some PNone"
  by (simp add: unset_instance_def setattr_def)

lemma attrs_bound: "attrs bound_instance ''collection'' = Some (PObj ''users'')"
  by (simp add: bound_instance_def setattr_def)

lemma call_attr_none:
  "attrs self a = Some PNone \<Longrightarrow>
   call_attr e self a m args kwargs log = (Inl (no_attribute ''NoneType'' m), log)"
  by (simp add: call_attr_def getattr_def call_method_def)

lemma call_attr_obj:
  "attrs self a = Some (PObj c) \<Longrightarrow>
   call_attr e self a m args kwargs log =
     (respond e log (Call (PObj c) m args kwargs), log @ [Call (PObj c) m args kwargs])"
  by (simp add: call_attr_def getattr_def call_method_def)

text \<open>
  C3, as stated, fails. After \<^verbatim>\<open>service.collection = None\<close> the attribute exists, so
  the \<^verbatim>\<open>hasattr\<close> guard passes; \<^verbatim>\<open>create\<close> then raises the interpreter's
  \<^verbatim>\<open>'NoneType' object has no attribute 'insert_one'\<close>, which is not the guard's
  "No collection found" error.
\<close>

theorem none_collection_counterexample:
  "hasattr unset_instance ''collection'' \<and>
   invoke demo_env unset_instance (Create (PDict [])) [] =
     (Inl (AttributeError
            (quote ''NoneType'' @ '' object has no attribute '' @ quote ''insert_one'')), []) \<and>
   invoke demo_env unset_instance (Create (PDict [])) [] \<noteq> (Inl no_collection_error, [])"
  by (simp add: hasattr_setattr unset_instance_def [symmetric] create_def call_attr_none
        attrs_unset no_attribute_def no_collection_error_def quote_def hasattr_def)

text \<open>
  C3, amended. With the \<^verbatim>\<open>collection\<close> attribute set to \<^verbatim>\<open>None\<close>, each of the fifteen
  operations raises an \<^verbatim>\<open>AttributeError\<close> (the same exception class as the guard's, with
  the interpreter's message naming the collection method the operation wanted) and makes
  no call on the collection boundary.
\<close>

theorem none_collection_attribute_error:
  assumes "attrs self ''collection'' = Some PNone"
  shows "invoke e self op log = (Inl (no_attribute ''NoneType'' (boundary_method op)), log)"
proof -
  have h: "hasattr self ''collection''"
    using assms by (simp add: hasattr_def)
  show ?thesis
    by (cases op)
       (simp_all add: h call_attr_none [OF assms] create_def create_many_def find_by_id_def
          find_one_def find_many_def find_all_def update_by_id_def update_one_def
          update_many_def delete_by_id_def delete_one_def delete_many_def count_documents_def
          count_def exists_def)
qed

theorem none_collection_attribute_error_witness:
  "attrs unset_instance ''collection'' = Some PNone \<and>
   invoke demo_env unset_instance (FindMany None (Some (PInt 5))) [] =
     (Inl (no_attribute ''NoneType'' ''find''), [])"
  using none_collection_attribute_error
          [of unset_instance demo_env "FindMany None (Some (PInt 5))" "[]"]
  by (simp add: attrs_unset)

section \<open>Counting\<close>

text \<open>
  C7. On an instance whose \<^verbatim>\<open>collection\<close> is a collection object, \<^verbatim>\<open>exists\<close> makes
  exactly one boundary call, \<^verbatim>\<open>count_documents(query, limit=1)\<close>, whatever the answer;
  when the answer is the integer \<open>k\<close>, the result is the truth value of \<open>k \<ge> 1\<close>.
\<close>

theorem exists_capped_count:
  assumes "attrs self ''collection'' = Some (PObj c)"
  shows "snd (exists e self q log) =
           log @ [Call (PObj c) ''count_documents'' [q] [(''limit'', PInt 1)]] \<and>
         (\<forall>k. respond e log (Call (PObj c) ''count_documents'' [q] [(''limit'', PInt 1)])
                 = Inr (PInt k)
            \<longrightarrow> fst (exists e self q log) = Inr (PBool (1 \<le> k)))"
proof -
  have h: "hasattr self ''collection''"
    using assms by (simp add: hasattr_def)
  show ?thesis
    by (auto simp add: exists_def h call_attr_obj [OF assms] py_gt_def split: sum.splits)
qed

theorem exists_capped_count_witness:
  "attrs bound_instance ''collection'' = Some (PObj ''users'') \<and>
   snd (exists demo_env bound_instance (PDict []) []) =
     [Call (PObj ''users'') ''count_documents'' [PDict []] [(''limit'', PInt 1)]] \<and>
   fst (exists demo_env bound_instance (PDict []) []) = Inr (PBool True)"
  using exists_capped_count [of bound_instance "''users''" demo_env "PDict []" "[]"]
  by (simp add: attrs_bound demo_env_def demo_respond_def)

text \<open>
  C8. \<^verbatim>\<open>count\<close> and \<^verbatim>\<open>count_documents\<close> give the same outcome for every filter, given
  or omitted, on every instance, under every driver and after every history: the same
  value or the same exception, and the same log of boundary calls.
\<close>

theorem count_alias: "count e self q log = count_documents e self q log"
  by (cases q) (simp_all add: count_def count_documents_def default_arg_def)

section \<open>Lookups with a filter and a limit\<close>

lemma find_many_no_limit:
  assumes "attrs self ''collection'' = Some (PObj c)" and "\<not> truthy (default_arg PNone l)"
  shows "find_many e self q l log =
           find_unlimited e (PObj c) (py_or (default_arg PNone q) (PDict [])) log"
proof -
  have h: "hasattr self ''collection''"
    using assms(1) by (simp add: hasattr_def)
  show ?thesis
    using assms(2)
    by (simp add: find_many_def h find_unlimited_def call_attr_def getattr_def assms(1)
          split: prod.split sum.split)
qed

lemma find_all_eq_find_many: "find_all e self q l log = find_many e self q l log"
  by (simp add: find_all_def find_many_def)

text \<open>
  C6, as stated, fails at the limit 0: \<^verbatim>\<open>if limit:\<close> skips the cap, so all three
  documents of the cursor come back, and three is more than zero.
\<close>

theorem limit_zero_counterexample:
  "find_many demo_env bound_instance None (Some (PInt 0)) [] =
     (Inr (PList demo_docs),
      [Call (PObj ''users'') ''find'' [PDict []] [], Call (PObj ''Cursor'') ''__iter__'' [] []]) \<and>
   \<not> length demo_docs \<le> 0"
  by (simp add: find_many_def hasattr_def attrs_bound call_attr_obj default_arg_def py_or_def
        py_list_def demo_env_def demo_respond_def demo_docs_def)

lemma no_filter_is_match_all:
  "find_many e self None lim log = find_many e self (Some (PDict [])) lim log"
  by (simp add: find_many_def default_arg_def py_or_def)

lemma find_many_with_limit:
  assumes "attrs self ''collection'' = Some (PObj c)" and "truthy l"
  shows "find_many e self q (Some l) log =
           find_limited e (PObj c) (py_or (default_arg PNone q) (PDict [])) l log"
proof -
  have h: "hasattr self ''collection''"
    using assms(1) by (simp add: hasattr_def)
  show ?thesis
    using assms(2)
    by (simp add: find_many_def h find_limited_def call_attr_def getattr_def assms(1)
          default_arg_def split: prod.split sum.split)
qed

lemma find_limited_yields:
  assumes "respond e log (Call (PObj c) ''find'' [fq] []) = Inr cur"
    and "call_method e cur ''limit'' [l] [] (log @ [Call (PObj c) ''find'' [fq] []])
           = (Inr cur2, log2)"
    and "py_list e cur2 log2 = (Inr (PList ys), log3)"
  shows "find_limited e (PObj c) fq l log = (Inr (PList ys), log3)"
  using assms by (simp add: find_limited_def call_method_def)

text \<open>
  The length cap is the cursor's, not the code's: with a cursor that takes \<^verbatim>\<open>limit(2)\<close>
  and still yields three documents, three documents are returned.
\<close>

lemma limit_is_the_cursors:
  "find_many mock_env bound_instance None (Some (PInt 2)) [] =
     (Inr (PList demo_docs),
      [Call (PObj ''users'') ''find'' [PDict []] [],
       Call (PObj ''Cursor'') ''limit'' [PInt 2] [],
       Call (PObj ''Cursor'') ''__iter__'' [] []])"
  by (simp add: find_many_def hasattr_def attrs_bound call_attr_obj default_arg_def py_or_def
        py_list_def call_method_def mock_env_def mock_respond_def)

text \<open>
  C6, amended. For every instance and every limit, \<^verbatim>\<open>find_many\<close> and \<^verbatim>\<open>find_all\<close>
  without a filter have the outcome they have with the filter \<^verbatim>\<open>{}\<close>. On an instance
  whose \<^verbatim>\<open>collection\<close> is a collection object:
  \<^item> with a truthy (non-zero) limit they call \<^verbatim>\<open>find\<close>, then \<^verbatim>\<open>limit\<close> with that
    value on the cursor, and return exactly the list the limited cursor yields, element
    for element and in its order, whatever that list is: the cap on the length is the
    one the cursor applies, and the code neither cuts nor reorders;
  \<^item> with the limit 0 (any falsy limit) they make no \<^verbatim>\<open>limit\<close> call and have the
    outcome they have without a limit, the plain lookup.
\<close>

theorem find_limit_cap:
  "find_many e self None lim log = find_many e self (Some (PDict [])) lim log \<and>
   find_all e self None lim log = find_all e self (Some (PDict [])) lim log \<and>
   (attrs self ''collection'' = Some (PObj c) \<longrightarrow>
      (truthy l \<longrightarrow>
         find_many e self q (Some l) log =
           find_limited e (PObj c) (py_or (default_arg PNone q) (PDict [])) l log \<and>
         find_all e self q (Some l) log =
           find_limited e (PObj c) (py_or (default_arg PNone q) (PDict [])) l log \<and>
         (\<forall>cur cur2 ys log2 log3.
            respond e log
              (Call (PObj c) ''find'' [py_or (default_arg PNone q) (PDict [])] []) = Inr cur \<and>
            call_method e cur ''limit'' [l] []
              (log @ [Call (PObj c) ''find'' [py_or (default_arg PNone q) (PDict [])] []])
              = (Inr cur2, log2) \<and>
            py_list e cur2 log2 = (Inr (PList ys), log3)
            \<longrightarrow> find_many e self q (Some l) log = (Inr (PList ys), log3) \<and>
                find_all e self q (Some l) log = (Inr (PList ys), log3))) \<and>
      (\<not> truthy l \<longrightarrow>
         find_many e self q (Some l) log =
           find_unlimited e (PObj c) (py_or (default_arg PNone q) (PDict [])) log \<and>
         find_all e self q (Some l) log =
           find_unlimited e (PObj c) (py_or (default_arg PNone q) (PDict [])) log \<and>
         find_many e self q (Some l) log = find_many e self q None log \<and>
         find_all e self q (Some l) log = find_all e self q None log))"
proof -
  have a: "find_many e self None lim log = find_many e self (Some (PDict [])) lim log"
    by (rule no_filter_is_match_all)
  have z: "\<not> truthy l \<Longrightarrow> find_many e self q (Some l) log = find_many e self q None log"
    by (simp add: find_many_def default_arg_def split: prod.split sum.split)
  {
    assume coll: "attrs self ''collection'' = Some (PObj c)"
    have u: "\<not> truthy l \<Longrightarrow> find_many e self q (Some l) log =
               find_unlimited e (PObj c) (py_or (default_arg PNone q) (PDict [])) log"
      by (rule find_many_no_limit [OF coll]) (simp add: default_arg_def)
    {
      assume t: "truthy l"
      note p = find_many_with_limit [OF coll t, of e q log]
      have "\<And>cur cur2 ys log2 log3.
            respond e log
              (Call (PObj c) ''find'' [py_or (default_arg PNone q) (PDict [])] []) = Inr cur \<Longrightarrow>
            call_method e cur ''limit'' [l] []
              (log @ [Call (PObj c) ''find'' [py_or (default_arg PNone q) (PDict [])] []])
              = (Inr cur2, log2) \<Longrightarrow>
            py_list e cur2 log2 = (Inr (PList ys), log3)
            \<Longrightarrow> find_many e self q (Some l) log = (Inr (PList ys), log3)"
        by (simp only: p) (rule find_limited_yields)
      note p this
    }
    note u this
  }
  with a z show ?thesis
    by (simp add: find_all_eq_find_many)
qed

theorem find_limit_cap_witness:
  "attrs bound_instance ''collection'' = Some (PObj ''users'') \<and>
   truthy (PInt 2) \<and> \<not> truthy (PInt 0) \<and>
   find_many demo_env bound_instance None (Some (PInt 2)) [] =
     (Inr (PList (take 2 demo_docs)),
      [Call (PObj ''users'') ''find'' [PDict []] [],
       Call (PObj ''Cursor'') ''limit'' [PInt 2] [],
       Call (PObj ''Cursor'') ''__iter__'' [] []]) \<and>
   find_many demo_env bound_instance None (Some (PInt 0)) [] =
     (Inr (PList demo_docs),
      [Call (PObj ''users'') ''find'' [PDict []] [], Call (PObj ''Cursor'') ''__iter__'' [] []])"
proof -
  have fnd: "respond demo_env []
               (Call (PObj ''users'') ''find'' [py_or (default_arg PNone None) (PDict [])] [])
               = Inr (PObj ''Cursor'')"
    by (simp add: demo_env_def demo_respond_def)
  have lim: "call_method demo_env (PObj ''Cursor'') ''limit'' [PInt 2] []
               ([] @ [Call (PObj ''users'') ''find''
                        [py_or (default_arg PNone None) (PDict [])] []])
             = (Inr (PObj ''Cursor''),
                [Call (PObj ''users'') ''find'' [PDict []] [],
                 Call (PObj ''Cursor'') ''limit'' [PInt 2] []])"
    by (simp add: call_method_def demo_env_def demo_respond_def py_or_def default_arg_def)
  have mat: "py_list demo_env (PObj ''Cursor'')
               [Call (PObj ''users'') ''find'' [PDict []] [],
                Call (PObj ''Cursor'') ''limit'' [PInt 2] []]
             = (Inr (PList (take 2 demo_docs)),
                [Call (PObj ''users'') ''find'' [PDict []] [],
                 Call (PObj ''Cursor'') ''limit'' [PInt 2] [],
                 Call (PObj ''Cursor'') ''__iter__'' [] []])"
    by (simp add: py_list_def demo_env_def demo_respond_def)
  have unl: "find_unlimited demo_env (PObj ''users'')
               (py_or (default_arg PNone None) (PDict [])) []
             = (Inr (PList demo_docs),
                [Call (PObj ''users'') ''find'' [PDict []] [],
                 Call (PObj ''Cursor'') ''__iter__'' [] []])"
    by (simp add: find_unlimited_def call_method_def py_list_def demo_env_def demo_respond_def
          py_or_def default_arg_def)
  have t: "truthy (PInt 2)"
    by simp
  have f: "\<not> truthy (PInt 0)"
    by simp
  from find_limit_cap [of demo_env bound_instance "Some (PInt 7)" "[]" "''users''" "PInt 2" None]
  have r2: "find_many demo_env bound_instance None (Some (PInt 2)) [] =
          (Inr (PList (take 2 demo_docs)),
           [Call (PObj ''users'') ''find'' [PDict []] [],
            Call (PObj ''Cursor'') ''limit'' [PInt 2] [],
            Call (PObj ''Cursor'') ''__iter__'' [] []])"
    using attrs_bound t fnd lim mat by blast
  from find_limit_cap [of demo_env bound_instance "Some (PInt 7)" "[]" "''users''" "PInt 0" None]
  have r0: "find_many demo_env bound_instance None (Some (PInt 0)) [] =
          find_unlimited demo_env (PObj ''users'') (py_or (default_arg PNone None) (PDict [])) []"
    using attrs_bound f by blast
  show ?thesis
    using r2 r0 attrs_bound t unl by simp
qed

text \<open>
  C10. On an instance whose \<^verbatim>\<open>collection\<close> is a collection object, a falsy limit
  (such as 0) makes \<^verbatim>\<open>find_many\<close> and \<^verbatim>\<open>find_all\<close> the plain lookup: \<^verbatim>\<open>find\<close>, then
  the cursor materialised, with no \<^verbatim>\<open>limit\<close> call. A falsy filter (\<^verbatim>\<open>None\<close>, the
  empty mapping) is replaced by \<^verbatim>\<open>{}\<close> before \<^verbatim>\<open>find\<close> is called, whatever the limit.
\<close>

theorem falsy_limit_and_filter:
  assumes "attrs self ''collection'' = Some (PObj c)"
  shows "(\<not> truthy l \<longrightarrow>
            find_many e self q (Some l) log =
              find_unlimited e (PObj c) (py_or (default_arg PNone q) (PDict [])) log \<and>
            find_all e self q (Some l) log =
              find_unlimited e (PObj c) (py_or (default_arg PNone q) (PDict [])) log) \<and>
         (\<not> truthy f \<longrightarrow>
            find_many e self (Some f) None log = find_unlimited e (PObj c) (PDict []) log \<and>
            find_all e self (Some f) None log = find_unlimited e (PObj c) (PDict []) log \<and>
            find_many e self (Some f) lim log = find_many e self (Some (PDict [])) lim log \<and>
            find_all e self (Some f) lim log = find_all e self (Some (PDict [])) lim log)"
proof -
  have a: "\<not> truthy l \<Longrightarrow> find_many e self q (Some l) log =
              find_unlimited e (PObj c) (py_or (default_arg PNone q) (PDict [])) log"
    by (rule find_many_no_limit [OF assms]) (simp add: default_arg_def)
  have b: "find_many e self (Some f) None log =
             find_unlimited e (PObj c) (py_or f (PDict [])) log"
    using find_many_no_limit [OF assms, of None e "Some f" log] by (simp add: default_arg_def)
  have c: "\<not> truthy f \<Longrightarrow>
             find_many e self (Some f) lim log = find_many e self (Some (PDict [])) lim log"
    by (simp add: find_many_def default_arg_def py_or_def)
  show ?thesis
    using a b c by (simp add: find_all_eq_find_many py_or_def)
qed

theorem falsy_limit_and_filter_witness:
  "attrs bound_instance ''collection'' = Some (PObj ''users'') \<and>
   \<not> truthy (PInt 0) \<and> \<not> truthy PNone \<and>
   find_many demo_env bound_instance (Some PNone) (Some (PInt 0)) [] =
     (Inr (PList demo_docs),
      [Call (PObj ''users'') ''find'' [PDict []] [], Call (PObj ''Cursor'') ''__iter__'' [] []])"
  using falsy_limit_and_filter
          [of bound_instance "''users''" "PInt 0" demo_env "Some PNone" "[]" PNone None]
  by (simp add: attrs_bound find_unlimited_def call_method_def py_list_def demo_env_def
        demo_respond_def py_or_def default_arg_def)

section \<open>Decoration\<close>

lemma collection_dec:
  "collection jr name wc = Inr d \<Longrightarrow>
   dec_injector d = jr \<and> dec_with_crud d = default_arg True wc \<and> name = PStr (dec_name d)
     \<and> dec_name d \<noteq> []"
  by (cases name) (auto simp add: collection_def split: if_splits)

text \<open>
  C2, as stated, fails: a lookup that fails with an exception other than \<^verbatim>\<open>KeyError\<close>
  or \<^verbatim>\<open>AttributeError\<close> (here the driver's own error for an invalid name) is not
  caught by the \<^verbatim>\<open>except\<close> clause and leaves the decorator as it is.
\<close>

theorem lookup_failure_counterexample:
  "collection demo_injector (PStr ''x..y'') None =
     Inr \<lparr>dec_injector = demo_injector, dec_name = ''x..y'', dec_with_crud = True\<rparr> \<and>
   py_getitem demo_env (db demo_injector) ''x..y'' = Inl (DriverError ''InvalidName'') \<and>
   wrapper demo_env \<lparr>dec_injector = demo_injector, dec_name = ''x..y'', dec_with_crud = True\<rparr>
     (AType plain_class) = Inl (DriverError ''InvalidName'')"
  by (simp add: collection_def default_arg_def wrapper_def probe_def py_getitem_def
        demo_injector_def demo_db_def demo_env_def demo_getitem_def)

text \<open>
  C2, amended. When the lookup of the name on the injector's database handle fails,
  applying the decorator to a class raises and produces no wrapped class: the
  "Collection ... not accessible in database" \<^verbatim>\<open>KeyError\<close> when the lookup failed with
  a \<^verbatim>\<open>KeyError\<close> or an \<^verbatim>\<open>AttributeError\<close>, and the lookup's own exception otherwise.
\<close>

theorem lookup_failure_binding_error:
  assumes "collection jr name wc = Inr d"
    and "py_getitem e (db jr) (dec_name d) = Inl x"
  shows "wrapper e d (AType cls) =
           Inl (case x of
                  KeyError m \<Rightarrow> not_accessible (dec_name d)
                | AttributeError m \<Rightarrow> not_accessible (dec_name d)
                | _ \<Rightarrow> x)"
proof -
  have "dec_injector d = jr"
    using collection_dec [OF assms(1)] by simp
  then show ?thesis
    using assms(2) by (cases x) (simp_all add: wrapper_def probe_def)
qed

theorem lookup_failure_binding_error_witness:
  "collection dict_injector (PStr ''orders'') None =
     Inr \<lparr>dec_injector = dict_injector, dec_name = ''orders'', dec_with_crud = True\<rparr> \<and>
   py_getitem demo_env (db dict_injector) ''orders'' = Inl (KeyError (quote ''orders'')) \<and>
   wrapper demo_env \<lparr>dec_injector = dict_injector, dec_name = ''orders'', dec_with_crud = True\<rparr>
     (AType plain_class) = Inl (not_accessible ''orders'')"
proof -
  have a: "collection dict_injector (PStr ''orders'') None =
     Inr \<lparr>dec_injector = dict_injector, dec_name = ''orders'', dec_with_crud = True\<rparr>"
    by (simp add: collection_def default_arg_def)
  have b: "py_getitem demo_env (db dict_injector)
             (dec_name \<lparr>dec_injector = dict_injector, dec_name = ''orders'',
                        dec_with_crud = True\<rparr>)
           = Inl (KeyError (quote ''orders''))"
    by (simp add: py_getitem_def dict_injector_def)
  show ?thesis
    using lookup_failure_binding_error [OF a b, of plain_class] a b by simp
qed

text \<open>
  C9. With \<^verbatim>\<open>with_crud\<close> omitted, the decorator of \<^verbatim>\<open>collection\<close> carries the flag true
  and every class it builds has the bases \<^verbatim>\<open>[cls, CRUDMixin]\<close>; the decorator of
  \<^verbatim>\<open>multiple_collections\<close> carries the flag false and every class it builds has the
  base \<^verbatim>\<open>[cls]\<close> alone.
\<close>

theorem capability_defaults:
  assumes "collection jr name None = Inr d"
    and "multiple_collections jr None cs = Inr m"
  shows "dec_with_crud d \<and> \<not> md_with_crud m \<and>
         (\<forall>e cls w. wrapper e d (AType cls) = Inr w
            \<longrightarrow> w_base_classes w = [UserBase cls, CRUDMixinBase]) \<and>
         (\<forall>e cls w. wrapper_multi e m (AType cls) = Inr w
            \<longrightarrow> wm_base_classes w = [UserBase cls])"
proof -
  have d: "dec_with_crud d"
    using collection_dec [OF assms(1)] by (simp add: default_arg_def)
  have m: "\<not> md_with_crud m"
    using assms(2) by (auto simp add: multiple_collections_def default_arg_def split: if_splits)
  have w: "wrapper e d (AType cls) = Inr w \<Longrightarrow> w_base_classes w = [UserBase cls, CRUDMixinBase]"
    for e cls w
    using d by (auto simp add: wrapper_def base_classes_of_def split: option.splits)
  have wm: "wrapper_multi e m (AType cls) = Inr w \<Longrightarrow> wm_base_classes w = [UserBase cls]"
    for e cls w
    using m by (auto simp add: wrapper_multi_def base_classes_of_def split: option.splits)
  show ?thesis
    using d m w wm by blast
qed

theorem capability_defaults_witness:
  "collection demo_injector (PStr ''users'') None = Inr users_decorator \<and>
   multiple_collections demo_injector None [(''primary'', ''a'')] =
     Inr \<lparr>md_injector = demo_injector, md_collections = [(''primary'', ''a'')],
          md_with_crud = False\<rparr> \<and>
   wrapper demo_env users_decorator (AType plain_class) = Inr users_wrapped \<and>
   w_base_classes users_wrapped = [UserBase plain_class, CRUDMixinBase] \<and>
   wrapper_multi demo_env
       \<lparr>md_injector = demo_injector, md_collections = [(''primary'', ''a'')],
        md_with_crud = False\<rparr> (AType plain_class) =
     Inr \<lparr>wm_cls = plain_class, wm_base_classes = [UserBase plain_class],
          wm_collections = [(''primary'', ''a'')], wm_with_crud = False\<rparr>"
proof -
  have a: "collection demo_injector (PStr ''users'') None = Inr users_decorator"
    by (simp add: collection_def default_arg_def users_decorator_def)
  have b: "multiple_collections demo_injector None [(''primary'', ''a'')] =
     Inr \<lparr>md_injector = demo_injector, md_collections = [(''primary'', ''a'')],
          md_with_crud = False\<rparr>"
    by (simp add: multiple_collections_def default_arg_def)
  have c: "wrapper demo_env users_decorator (AType plain_class) = Inr users_wrapped"
    by (simp add: users_decorator_def users_wrapped_def wrapper_def probe_def py_getitem_def
          demo_injector_def demo_db_def demo_env_def demo_getitem_def class_statement_def
          base_classes_of_def plain_class_def)
  have d: "wrapper_multi demo_env
       \<lparr>md_injector = demo_injector, md_collections = [(''primary'', ''a'')],
        md_with_crud = False\<rparr> (AType plain_class) =
     Inr \<lparr>wm_cls = plain_class, wm_base_classes = [UserBase plain_class],
          wm_collections = [(''primary'', ''a'')], wm_with_crud = False\<rparr>"
    by (simp add: wrapper_multi_def probe_def py_getitem_def demo_injector_def demo_db_def
          demo_env_def demo_getitem_def class_statement_def base_classes_of_def)
  show ?thesis
    using capability_defaults [OF a b] a b c d by (simp add: users_wrapped_def)
qed

section \<open>Construction\<close>

text \<open>
  C4 does not hold of the code. \<^verbatim>\<open>@injector.collection('users')\<close> on
  \<^verbatim>\<open>class UserService: pass\<close> succeeds, but constructing an instance raises
  \<^verbatim>\<open>'UserService' object has no attribute 'db'\<close>: the last step of
  \<^verbatim>\<open>Wrapped.__init__\<close> reads \<^verbatim>\<open>self.db\<close> on the instance, not on the injector whose
  database was probed at decoration time, so the named collection is not assigned.
\<close>

theorem construction_reads_instance_db:
  "collection demo_injector (PStr ''users'') None = Inr users_decorator \<and>
   wrapper demo_env users_decorator (AType plain_class) = Inr users_wrapped \<and>
   construct demo_env users_wrapped ([], []) = Inl (no_attribute ''UserService'' ''db'')"
  by (simp add: collection_def default_arg_def users_decorator_def users_wrapped_def
        wrapper_def probe_def py_getitem_def demo_injector_def demo_db_def demo_env_def
        demo_getitem_def class_statement_def base_classes_of_def plain_class_def
        construct_def wrapped_init_def new_instance_def object_init_def inject_def
        getattr_def)

text \<open>
  C5 does not hold of the code, by the same reading of \<^verbatim>\<open>self.db\<close>:
  \<^verbatim>\<open>@injector.multiple_collections(with_crud=True, primary='a', secondary='b')\<close> on
  \<^verbatim>\<open>class UserService: pass\<close> succeeds, and constructing an instance raises before any
  attribute is assigned.
\<close>

theorem multi_construction_reads_instance_db:
  "multiple_collections demo_injector (Some True) [(''primary'', ''a''), (''secondary'', ''b'')]
     = Inr pair_decorator \<and>
   wrapper_multi demo_env pair_decorator (AType plain_class) = Inr pair_wrapped \<and>
   construct_multi demo_env pair_wrapped ([], []) = Inl (no_attribute ''UserService'' ''db'')"
  by (simp add: multiple_collections_def default_arg_def pair_decorator_def pair_wrapped_def
        wrapper_multi_def probe_def py_getitem_def demo_injector_def demo_db_def demo_env_def
        demo_getitem_def class_statement_def base_classes_of_def plain_class_def
        construct_multi_def wrapped_multi_init_def new_instance_def object_init_def inject_def
        getattr_def)

text \<open>
  Where the user's class itself exposes the database handle as a class attribute
  \<^verbatim>\<open>db\<close>, construction completes and the attributes hold the named collections, the
  first declared one being the default.
\<close>

lemma construct_with_class_db:
  "map_sum id (\<lambda>s. attrs s ''collection'')
     (construct demo_env
        \<lparr>w_cls = db_class, w_base_classes = [UserBase db_class, CRUDMixinBase],
         w_name = ''users'', w_with_crud = True\<rparr> ([], []))
   = Inr (Some (PObj ''users''))"
  by (simp add: construct_def wrapped_init_def new_instance_def db_class_def object_init_def
        inject_def getattr_def py_getitem_def demo_db_def demo_env_def demo_getitem_def
        setattr_def)

lemma construct_multi_with_class_db:
  "map_sum id (\<lambda>s. (attrs s ''primary'', attrs s ''secondary'', attrs s ''collection''))
     (construct_multi demo_env
        \<lparr>wm_cls = db_class, wm_base_classes = [UserBase db_class, CRUDMixinBase],
         wm_collections = [(''primary'', ''a''), (''secondary'', ''b'')],
         wm_with_crud = True\<rparr> ([], []))
   = Inr (Some (PObj ''a''), Some (PObj ''b''), Some (PObj ''a''))"
  by (simp add: construct_multi_def wrapped_multi_init_def new_instance_def db_class_def
        object_init_def inject_def getattr_def py_getitem_def demo_db_def demo_env_def
        demo_getitem_def setattr_def)

end
